theory Spec2Isabelle
  imports Complex_Main "HOL-Library.Sublist" "HOL-Library.Log_Nat"
begin

section \<open>The tool executor (mcp\_server.py)\<close>

subsection \<open>float64 values and their arithmetic\<close>

text \<open>
  A float64 value is a finite number, an infinity or \<open>NaN\<close>. A finite value is kept as
  the real number it stands for. The sign of zero is not kept: no operation of the tools
  depends on it.
\<close>

datatype float64 = Num real | PInf | MInf | NaN

text \<open>\<open>pow2 k\<close> is two to the power \<open>k\<close>, for an exponent of either sign.\<close>

definition pow2 :: "int \<Rightarrow> real" where
  "pow2 k = (if 0 \<le> k then 2 ^ nat k else 1 / 2 ^ nat (- k))"

text \<open>
  For \<open>x > 0\<close>, the exponent \<open>e\<close> with \<open>pow2 e \<le> x < pow2 (e + 1)\<close>, computed from the
  number of bits of an integer.
\<close>

definition binary_exponent :: "real \<Rightarrow> int" where
  "binary_exponent x =
     (if 1 \<le> x then bitlen \<lfloor>x\<rfloor> - 1 else - bitlen (\<lceil>1 / x\<rceil> - 1))"

text \<open>The nearest integer; a tie goes to the even one.\<close>

definition round_half_even :: "real \<Rightarrow> int" where
  "round_half_even x =
     (let n = \<lfloor>x\<rfloor>; r = x - of_int n
      in if r < 1/2 then n else if 1/2 < r then n + 1 else if even n then n else n + 1)"

text \<open>
  Rounding of a real result to float64, as IEEE 754 arithmetic does in its default mode:
  to the nearest value with 53 significant bits, ties to even; below \<open>pow2 (- 1022)\<close> the
  spacing stays that of the subnormal numbers; a result that reaches \<open>pow2 1024\<close>
  overflows to an infinity. With \<open>e\<close> the exponent of \<open>x\<close> and \<open>m\<close> the rounded
  significand, the result \<open>m * pow2 (e - 52)\<close> reaches \<open>pow2 1024\<close> exactly when
  \<open>e\<close> is at least 1024, or \<open>e\<close> is 1023 and \<open>m\<close> has been rounded up to \<open>2 ^ 53\<close>.
\<close>

definition round64 :: "real \<Rightarrow> float64" where
  "round64 x =
     (if x = 0 then Num 0
      else (let e = max (binary_exponent \<bar>x\<bar>) (- 1022);
                u = pow2 (e - 52);
                m = round_half_even (x / u)
            in if 1024 \<le> e \<or> (e = 1023 \<and> \<bar>m\<bar> = 2 ^ 53)
               then (if 0 < x then PInf else MInf)
               else Num (of_int m * u)))"

text \<open>Comparisons: every comparison with \<open>NaN\<close> is false.\<close>

fun f_eq :: "float64 \<Rightarrow> float64 \<Rightarrow> bool" where
  "f_eq (Num a) (Num b) = (a = b)"
| "f_eq PInf PInf = True"
| "f_eq MInf MInf = True"
| "f_eq _ _ = False"

fun f_lt :: "float64 \<Rightarrow> float64 \<Rightarrow> bool" where
  "f_lt (Num a) (Num b) = (a < b)"
| "f_lt MInf (Num b) = True"
| "f_lt MInf PInf = True"
| "f_lt (Num a) PInf = True"
| "f_lt _ _ = False"

fun f_le :: "float64 \<Rightarrow> float64 \<Rightarrow> bool" where
  "f_le (Num a) (Num b) = (a \<le> b)"
| "f_le MInf (Num b) = True"
| "f_le MInf PInf = True"
| "f_le (Num a) PInf = True"
| "f_le MInf MInf = True"
| "f_le PInf PInf = True"
| "f_le _ _ = False"

definition f_gt :: "float64 \<Rightarrow> float64 \<Rightarrow> bool" where
  "f_gt a b = f_lt b a"

definition f_ge :: "float64 \<Rightarrow> float64 \<Rightarrow> bool" where
  "f_ge a b = f_le b a"

text \<open>
  Arithmetic: the exact result of two finite operands is rounded; \<open>NaN\<close> propagates; the
  infinities follow IEEE 754.
\<close>

fun f_neg :: "float64 \<Rightarrow> float64" where
  "f_neg (Num a) = Num (- a)"
| "f_neg PInf = MInf"
| "f_neg MInf = PInf"
| "f_neg NaN = NaN"

fun f_add :: "float64 \<Rightarrow> float64 \<Rightarrow> float64" where
  "f_add (Num a) (Num b) = round64 (a + b)"
| "f_add NaN _ = NaN"
| "f_add _ NaN = NaN"
| "f_add PInf MInf = NaN"
| "f_add MInf PInf = NaN"
| "f_add PInf _ = PInf"
| "f_add _ PInf = PInf"
| "f_add MInf _ = MInf"
| "f_add _ MInf = MInf"

definition f_sub :: "float64 \<Rightarrow> float64 \<Rightarrow> float64" where
  "f_sub a b = f_add a (f_neg b)"

text \<open>The sign of a product with an infinity; zero times an infinity is \<open>NaN\<close>.\<close>

definition signed_inf :: "real \<Rightarrow> float64" where
  "signed_inf s = (if s = 0 then NaN else if 0 < s then PInf else MInf)"

fun f_mul :: "float64 \<Rightarrow> float64 \<Rightarrow> float64" where
  "f_mul (Num a) (Num b) = round64 (a * b)"
| "f_mul NaN _ = NaN"
| "f_mul _ NaN = NaN"
| "f_mul (Num a) PInf = signed_inf a"
| "f_mul (Num a) MInf = signed_inf (- a)"
| "f_mul PInf (Num b) = signed_inf b"
| "f_mul MInf (Num b) = signed_inf (- b)"
| "f_mul PInf PInf = PInf"
| "f_mul MInf MInf = PInf"
| "f_mul PInf MInf = MInf"
| "f_mul MInf PInf = MInf"

subsection \<open>Data model\<close>

text \<open>
  A cell of the table, as \<open>read_csv\<close> builds it: a float64 value (\<open>NaN\<close> for a missing
  field), an integer of an int64 column, a boolean, or a string of a text column.
\<close>

datatype cell = FloatCell float64 | IntCell int | BoolCell bool | StrCell string

text \<open>The exceptions the two source files can raise.\<close>

datatype error =
    AssertionError string
  | KeyError string
  | OSError string
  | TypeError
  | JSONDecodeError

text \<open>
  A DataFrame: the ordered column names and the rows, each row holding one cell per
  column. The module-level variable \<open>df\<close> is a \<open>dataframe option\<close>, \<open>None\<close> until
  \<open>load_data\<close> has run.
\<close>

record dataframe =
  columns :: "string list"
  rows :: "cell list list"

text \<open>The dictionaries the tools return: \<open>{'success': ..., 'information': {...}}\<close>.\<close>

datatype information = DataSize nat | ErrorMessage string

record tool_result =
  success :: bool
  information :: information

text \<open>
  Every tool is a function of the current value of \<open>df\<close> and its arguments; it yields what
  the call returns (\<open>Inr\<close>) or raises (\<open>Inl\<close>), and the value of \<open>df\<close> afterwards.
\<close>

type_synonym 'a outcome = "(error + 'a) \<times> dataframe option"

subsection \<open>The pandas operations the tools use\<close>

text \<open>
  The float64 value a cell is compared as. A numeric column is converted to float64 before
  it is compared with a float, so an integer beyond \<open>2 ^ 53\<close> is rounded; a string has no
  such value.
\<close>

fun to_float64 :: "cell \<Rightarrow> float64 option" where
  "to_float64 (FloatCell x) = Some x"
| "to_float64 (IntCell i) = Some (round64 (of_int i))"
| "to_float64 (BoolCell b) = Some (Num (if b then 1 else 0))"
| "to_float64 (StrCell s) = None"

text \<open>
  \<open>series == value\<close>: cell by cell; a string is not equal to a float. The comparison
  does not raise.
\<close>

definition series_eq :: "cell list \<Rightarrow> float64 \<Rightarrow> error + bool list" where
  "series_eq col v =
     Inr (map (\<lambda>c. case to_float64 c of None \<Rightarrow> False | Some x \<Rightarrow> f_eq x v) col)"

text \<open>
  \<open>series < value\<close> and the other order comparisons: cell by cell; ordering a string
  against a float raises \<open>TypeError\<close>.
\<close>

definition series_ord ::
  "(float64 \<Rightarrow> float64 \<Rightarrow> bool) \<Rightarrow> cell list \<Rightarrow> float64 \<Rightarrow> error + bool list" where
  "series_ord cmp col v =
     (case those (map to_float64 col) of
        None \<Rightarrow> Inl TypeError
      | Some xs \<Rightarrow> Inr (map (\<lambda>x. cmp x v) xs))"

text \<open>The position of a column name among the columns.\<close>

fun index_of :: "string \<Rightarrow> string list \<Rightarrow> nat option" where
  "index_of c [] = None"
| "index_of c (x # xs) =
     (if x = c then Some 0 else map_option Suc (index_of c xs))"

text \<open>The cell of a row at a position; \<open>read_csv\<close> fills a short row with \<open>NaN\<close>.\<close>

definition cell_at :: "cell list \<Rightarrow> nat \<Rightarrow> cell" where
  "cell_at r i = (if i < length r then r ! i else FloatCell NaN)"

text \<open>\<open>df[column_name]\<close>: the column as a series, or \<open>KeyError\<close>.\<close>

definition getitem_column :: "dataframe \<Rightarrow> string \<Rightarrow> error + cell list" where
  "getitem_column d column_name =
     (case index_of column_name (columns d) of
        None \<Rightarrow> Inl (KeyError column_name)
      | Some i \<Rightarrow> Inr (map (\<lambda>r. cell_at r i) (rows d)))"

text \<open>\<open>df[mask]\<close>: the rows at which the boolean series is true, in their order.\<close>

definition getitem_mask :: "dataframe \<Rightarrow> bool list \<Rightarrow> dataframe" where
  "getitem_mask d bs = d\<lparr>rows := map fst (filter snd (zip (rows d) bs))\<rparr>"

text \<open>\<open>df.shape[0]\<close>\<close>

definition shape0 :: "dataframe \<Rightarrow> nat" where
  "shape0 d = length (rows d)"

subsection \<open>The tools\<close>

definition must_load :: string where
  \<open>must_load = ''Must execute `load_data` first.''\<close>

definition base_dir :: string where
  "base_dir = ''examples/DA-Agent/data/da-dev-tables/''"

text \<open>Lines 22 to 25 of \<open>load_data\<close>: the file name that is handed to \<open>read_csv\<close>.\<close>

definition resolve_path :: "string \<Rightarrow> string" where
  "resolve_path file_name =
     (let file_name1 = (if \<not> suffix ''.csv'' file_name then file_name @ ''.csv'' else file_name);
          file_name2 = (if \<not> prefix base_dir file_name1 then base_dir @ file_name1 else file_name1)
      in file_name2)"

text \<open>
  \<open>load_data\<close>. The file system is the parameter \<open>read_csv\<close>, which returns the table or
  raises. A failed read leaves \<open>df\<close> as it was.
\<close>

definition load_data ::
  "(string \<Rightarrow> error + dataframe) \<Rightarrow> dataframe option \<Rightarrow> string \<Rightarrow> tool_result outcome" where
  "load_data read_csv df file_name =
     (case read_csv (resolve_path file_name) of
        Inl e \<Rightarrow> (Inl e, df)
      | Inr d \<Rightarrow> (Inr \<lparr>success = True, information = DataSize (shape0 d)\<rparr>, Some d))"

definition get_column_names :: "dataframe option \<Rightarrow> string list outcome" where
  "get_column_names df =
     (case df of
        None \<Rightarrow> (Inl (AssertionError must_load), None)
      | Some d \<Rightarrow> (Inr (columns d), Some d))"

text \<open>
  The four statistical tools apply a pandas function to the column and return what it
  gives. The pandas function is a parameter of the model; it returns a value or raises.
\<close>

definition series_tool ::
  "(cell list \<Rightarrow> error + 'a) \<Rightarrow> dataframe option \<Rightarrow> string \<Rightarrow> 'a outcome" where
  "series_tool f df column_name =
     (case df of
        None \<Rightarrow> (Inl (AssertionError must_load), None)
      | Some d \<Rightarrow>
          (case getitem_column d column_name of
             Inl e \<Rightarrow> (Inl e, Some d)
           | Inr col \<Rightarrow>
               (case f col of
                  Inl e \<Rightarrow> (Inl e, Some d)
                | Inr y \<Rightarrow> (Inr y, Some d))))"

definition describe_column ::
  "(cell list \<Rightarrow> error + 'a) \<Rightarrow> dataframe option \<Rightarrow> string \<Rightarrow> 'a outcome" where
  "describe_column describe df column_name = series_tool describe df column_name"

definition get_value_counts ::
  "(cell list \<Rightarrow> error + 'a) \<Rightarrow> dataframe option \<Rightarrow> string \<Rightarrow> 'a outcome" where
  "get_value_counts value_counts df column_name = series_tool value_counts df column_name"

definition compute_mean ::
  "(cell list \<Rightarrow> error + float64) \<Rightarrow> dataframe option \<Rightarrow> string \<Rightarrow> float64 outcome" where
  "compute_mean mean df column_name = series_tool mean df column_name"

definition compute_standard_deviation ::
  "(cell list \<Rightarrow> error + float64) \<Rightarrow> dataframe option \<Rightarrow> string \<Rightarrow> float64 outcome" where
  "compute_standard_deviation std df column_name = series_tool std df column_name"

text \<open>
  \<open>df[df[column_name] \<bowtie> value]\<close> for a comparison \<open>\<bowtie>\<close> of a series with a
  float: the column is read (\<open>KeyError\<close> when it is absent), compared (\<open>TypeError\<close> when
  the comparison raises), and the mask selects the rows.
\<close>

definition narrow ::
  "dataframe \<Rightarrow> string \<Rightarrow> (cell list \<Rightarrow> float64 \<Rightarrow> error + bool list) \<Rightarrow> float64 \<Rightarrow>
   error + dataframe" where
  "narrow d column_name compare v =
     (case getitem_column d column_name of
        Inl e \<Rightarrow> Inl e
      | Inr col \<Rightarrow>
          (case compare col v of
             Inl e \<Rightarrow> Inl e
           | Inr bs \<Rightarrow> Inr (getitem_mask d bs)))"

definition unrecognized :: "string \<Rightarrow> string" where
  \<open>unrecognized by = ''Unrecognized value for `by`: "'' @ by @ ''".''\<close>

text \<open>
  \<open>filter\<close>. The chain of \<open>if\<close>/\<open>elif\<close> either assigns the narrowed table to \<open>df\<close>
  (\<open>Some\<close>, possibly raising inside) or returns the failure dictionary at once (\<open>None\<close>).
\<close>

definition filter_tool ::
  "dataframe option \<Rightarrow> string \<Rightarrow> float64 \<Rightarrow> string \<Rightarrow> tool_result outcome" where
  "filter_tool df column_name v by =
     (case df of
        None \<Rightarrow> (Inl (AssertionError must_load), None)
      | Some d \<Rightarrow>
          (case (if by = ''equal'' then Some (narrow d column_name series_eq v)
                 else if by = ''less'' then Some (narrow d column_name (series_ord f_lt) v)
                 else if by = ''less/equal'' then Some (narrow d column_name (series_ord f_le) v)
                 else if by = ''greater'' then Some (narrow d column_name (series_ord f_gt) v)
                 else if by = ''greater/equal'' then Some (narrow d column_name (series_ord f_ge) v)
                 else None) of
             None \<Rightarrow>
               (Inr \<lparr>success = False, information = ErrorMessage (unrecognized by)\<rparr>, Some d)
           | Some (Inl e) \<Rightarrow> (Inl e, Some d)
           | Some (Inr d') \<Rightarrow>
               (Inr \<lparr>success = True, information = DataSize (shape0 d')\<rparr>, Some d')))"

text \<open>
  \<open>remove_outliers\<close>. \<open>quantile\<close> is pandas' \<open>Series.quantile\<close>, a parameter of the
  model that returns a float64 or raises. The bounds are computed in float64 arithmetic,
  each operation rounded. \<open>lower <= series\<close> is the series compared with \<open>>=\<close> against
  \<open>lower\<close>. The mask is the conjunction of the two comparison series.
\<close>

definition remove_outliers ::
  "(cell list \<Rightarrow> real \<Rightarrow> error + float64) \<Rightarrow> dataframe option \<Rightarrow> string \<Rightarrow>
   tool_result outcome" where
  "remove_outliers quantile df column_name =
     (case df of
        None \<Rightarrow> (Inl (AssertionError must_load), None)
      | Some d \<Rightarrow>
          (case getitem_column d column_name of
             Inl e \<Rightarrow> (Inl e, Some d)
           | Inr col \<Rightarrow>
               (case quantile col 0.25 of
                  Inl e \<Rightarrow> (Inl e, Some d)
                | Inr q1 \<Rightarrow>
                    (case quantile col 0.75 of
                       Inl e \<Rightarrow> (Inl e, Some d)
                     | Inr q3 \<Rightarrow>
                         (let iqr = f_sub q3 q1;
                              lower = f_sub q1 (f_mul (Num 1.5) iqr);
                              upper = f_add q3 (f_mul (Num 1.5) iqr)
                          in case series_ord f_ge col lower of
                               Inl e \<Rightarrow> (Inl e, Some d)
                             | Inr bs1 \<Rightarrow>
                                 (case series_ord f_le col upper of
                                    Inl e \<Rightarrow> (Inl e, Some d)
                                  | Inr bs2 \<Rightarrow>
                                      (let d' = getitem_mask d (map2 (\<and>) bs1 bs2)
                                       in (Inr \<lparr>success = True,
                                                 information = DataSize (shape0 d')\<rparr>,
                                           Some d'))))))))"

subsection \<open>A tool as the session calls it\<close>

text \<open>
  Every tool is registered with \<open>@mcp.tool()\<close> and is reached only through
  \<open>session.call_tool\<close>. What the session gets back is a result: \<open>IsError name e\<close> is
  the result with \<open>isError\<close> set that the call of the tool \<open>name\<close> gives when the
  function raised the exception \<open>e\<close>, and that carries the message of \<open>e\<close>;
  \<open>Returned y\<close> is the result that carries a returned value.
\<close>

datatype 'a call_tool_result = IsError string error | Returned 'a

text \<open>
  Modelled from the spec: the server library behind \<open>@mcp.tool()\<close>, which is not among
  the source files. The specification says of a tool result that it is ``either a domain
  value or a structured error with a human-readable message'', ``never raised as an
  uncatchable fault across the session boundary -- all tool failures are represented as
  data''. So when the tool function raises, the call answers with the error result, and the
  server keeps running with \<open>df\<close> as the function left it.
\<close>

definition mcp_tool :: "string \<Rightarrow> 'a outcome \<Rightarrow> 'a call_tool_result \<times> dataframe option" where
  "mcp_tool name out =
     (case fst out of
        Inl e \<Rightarrow> (IsError name e, snd out)
      | Inr y \<Rightarrow> (Returned y, snd out))"

section \<open>The conversation loop (mcp\_client.py)\<close>

subsection \<open>Data model\<close>

text \<open>
  A record of the history, \<open>{"role": ..., "content": ...}\<close>. The content is a string, or
  the \<open>result.content\<close> object a tool call returned, of a type \<open>'c\<close> this model leaves
  open.
\<close>

datatype 'c content = Text string | Payload 'c

record 'c message =
  role :: string
  content :: "'c content"

text \<open>A requested call: \<open>tool_call.function.name\<close> and \<open>tool_call.function.arguments\<close>.\<close>

record tool_call =
  function_name :: string
  function_arguments :: string

text \<open>
  \<open>response.choices[0]\<close>: the finish reason, \<open>message.content\<close> and
  \<open>message.tool_calls\<close>; the last two are optional in the client library.
\<close>

record choice =
  finish_reason :: string
  message_content :: "string option"
  message_tool_calls :: "tool_call list option"

text \<open>
  What the loop calls outside this file. The language model and the tool server are not
  functions of their arguments alone (the model samples, the server keeps a table), so both
  act on a world \<open>'w\<close>. \<open>create\<close> is \<open>client.chat.completions.create\<close> with the fixed
  deployment, tool schemas and sampling parameters, followed by \<open>choices[0]\<close>;
  \<open>call_tool\<close> is \<open>session.call_tool\<close> followed by \<open>.content\<close>; \<open>json_loads\<close> is
  \<open>json.loads\<close>, \<open>None\<close> when it raises; \<open>str_args\<close> and \<open>str_content\<close> are the
  formatting of the two values inside an f-string.
\<close>

record ('a, 'c, 'w) env =
  create :: "'c message list \<Rightarrow> 'w \<Rightarrow> choice \<times> 'w"
  call_tool :: "string \<Rightarrow> 'a \<Rightarrow> 'w \<Rightarrow> 'c \<times> 'w"
  json_loads :: "string \<Rightarrow> 'a option"
  str_args :: "'a \<Rightarrow> string"
  str_content :: "'c \<Rightarrow> string"

text \<open>
  The calls made so far, in order. The source keeps no such list; the model records the
  calls so that they can be counted.
\<close>

datatype ('a, 'c) event =
    is_model_call: ModelCall "'c message list"
  | is_tool_call: ToolCall string 'a 'c

text \<open>
  The local variables of \<open>process_query\<close> while the loop runs, with the world, the lines
  printed and the calls made. An entry of \<open>final_text\<close> is \<open>None\<close> when the model's
  message had no content.
\<close>

record ('a, 'c, 'w) conv =
  messages :: "'c message list"
  final_text :: "string option list"
  response :: choice
  world :: 'w
  stdout :: "string list"
  trace :: "('a, 'c) event list"

subsection \<open>\<open>process_query\<close>\<close>

definition calling_line :: "('a, 'c, 'w) env \<Rightarrow> string \<Rightarrow> 'a \<Rightarrow> string" where
  "calling_line e tool_name tool_args =
     ''[Calling tool '' @ tool_name @ '' with args '' @ str_args e tool_args @ '']''"

definition response_line :: "('a, 'c, 'w) env \<Rightarrow> 'c \<Rightarrow> string" where
  "response_line e result = ''[Tool response: '' @ str_content e result @ '']''"

text \<open>
  The body of the \<open>for\<close> loop, for one requested call: decode the arguments, call the
  tool, append two lines to \<open>final_text\<close> and two records to \<open>messages\<close>, and ask the
  model again.
\<close>

definition call_one ::
  "('a, 'c, 'w) env \<Rightarrow> ('a, 'c, 'w) conv \<Rightarrow> tool_call \<Rightarrow> error + ('a, 'c, 'w) conv" where
  "call_one e s tc =
     (let tool_name = function_name tc in
      case json_loads e (function_arguments tc) of
        None \<Rightarrow> Inl JSONDecodeError
      | Some tool_args \<Rightarrow>
          (let (result, w1) = call_tool e tool_name tool_args (world s);
               final_text1 = final_text s @
                 [Some (calling_line e tool_name tool_args), Some (response_line e result)];
               messages1 = messages s @
                 [\<lparr>role = ''assistant'', content = Text (calling_line e tool_name tool_args)\<rparr>,
                  \<lparr>role = ''user'', content = Payload result\<rparr>];
               (response1, w2) = create e messages1 w1
           in Inr (s\<lparr>messages := messages1, final_text := final_text1, response := response1,
                     world := w2,
                     trace := trace s @ [ToolCall tool_name tool_args result, ModelCall messages1]\<rparr>)))"

text \<open>
  The \<open>for\<close> loop over \<open>content.message.tool_calls\<close>. It runs over the calls of the
  response it started with, although each round replaces \<open>response\<close>.
\<close>

fun dispatch ::
  "('a, 'c, 'w) env \<Rightarrow> tool_call list \<Rightarrow> ('a, 'c, 'w) conv \<Rightarrow> error + ('a, 'c, 'w) conv" where
  "dispatch e [] s = Inr s"
| "dispatch e (tc # tcs) s =
     (case call_one e s tc of
        Inl err \<Rightarrow> Inl err
      | Inr s1 \<Rightarrow> dispatch e tcs s1)"

text \<open>
  The \<open>while True\<close> loop. \<open>None\<close> is a loop that never ends; \<open>Some (Inl err)\<close> is an
  exception that leaves the loop; \<open>Some (Inr s)\<close> is the state at \<open>break\<close>. Iterating
  over \<open>tool_calls\<close> when it is \<open>None\<close> raises \<open>TypeError\<close>.
\<close>

partial_function (option) loop ::
  "('a, 'c, 'w) env \<Rightarrow> ('a, 'c, 'w) conv \<Rightarrow> (error + ('a, 'c, 'w) conv) option" where
  "loop e s =
     (if finish_reason (response s) = ''stop'' then
        Some (Inr (s\<lparr>final_text := final_text s @ [message_content (response s)]\<rparr>))
      else if finish_reason (response s) = ''tool_calls'' then
        (case message_tool_calls (response s) of
           None \<Rightarrow> Some (Inl TypeError)
         | Some tcs \<Rightarrow>
             (case dispatch e tcs s of
                Inl err \<Rightarrow> Some (Inl err)
              | Inr s1 \<Rightarrow> loop e s1))
      else loop e (s\<lparr>stdout := stdout s @ [''Finish reason: '' @ finish_reason (response s)]\<rparr>))"

text \<open>\<open>process_query\<close> up to the end of the loop: the first model call, then the loop.\<close>

definition run_query ::
  "('a, 'c, 'w) env \<Rightarrow> string \<Rightarrow> 'w \<Rightarrow> (error + ('a, 'c, 'w) conv) option" where
  "run_query e query w =
     (let messages0 = [\<lparr>role = ''user'', content = Text query\<rparr>];
          (response0, w0) = create e messages0 w
      in loop e \<lparr>messages = messages0, final_text = [], response = response0, world = w0,
                 stdout = [], trace = [ModelCall messages0]\<rparr>)"

text \<open>\<open>"\n".join\<close> of strings.\<close>

fun join_lines :: "string list \<Rightarrow> string" where
  "join_lines [] = []"
| "join_lines [x] = x"
| "join_lines (x # y # ys) = x @ [CHR 0x0A] @ join_lines (y # ys)"

text \<open>\<open>"\n".join(final_text)\<close>: \<open>TypeError\<close> when an entry is \<open>None\<close>.\<close>

definition join_final_text :: "string option list \<Rightarrow> error + string" where
  "join_final_text ls = (case those ls of None \<Rightarrow> Inl TypeError | Some xs \<Rightarrow> Inr (join_lines xs))"

definition process_query ::
  "('a, 'c, 'w) env \<Rightarrow> string \<Rightarrow> 'w \<Rightarrow> (error + string) option" where
  "process_query e query w =
     (case run_query e query w of
        None \<Rightarrow> None
      | Some (Inl err) \<Rightarrow> Some (Inl err)
      | Some (Inr s) \<Rightarrow> Some (join_final_text (final_text s)))"

section \<open>The vocabulary of the specification\<close>

text \<open>The comparators the docstring of \<open>filter\<close> lists.\<close>

definition valid_comparators :: "string set" where
  "valid_comparators = {''equal'', ''less'', ''less/equal'', ''greater'', ''greater/equal''}"

text \<open>
  What the docstring says each comparator keeps: \<open>stated_comparison by x v\<close> holds when
  the value \<open>x\<close> of a row is kept by comparator \<open>by\<close> against \<open>v\<close>.
\<close>

definition stated_comparison :: "string \<Rightarrow> float64 \<Rightarrow> float64 \<Rightarrow> bool" where
  "stated_comparison by x v =
     (if by = ''equal'' then f_eq x v
      else if by = ''less'' then f_lt x v
      else if by = ''less/equal'' then f_le x v
      else if by = ''greater'' then f_gt x v
      else if by = ''greater/equal'' then f_ge x v
      else False)"

text \<open>
  The cell of a row in a named column, and all the cells of the column. The value of a
  cell as a float64; a string is not a number.
\<close>

definition row_value :: "dataframe \<Rightarrow> string \<Rightarrow> cell list \<Rightarrow> cell" where
  "row_value d column_name r =
     (case index_of column_name (columns d) of None \<Rightarrow> FloatCell NaN | Some i \<Rightarrow> cell_at r i)"

definition column_values :: "dataframe \<Rightarrow> string \<Rightarrow> cell list" where
  "column_values d column_name = map (row_value d column_name) (rows d)"

definition float_value :: "cell \<Rightarrow> float64" where
  "float_value c = (case to_float64 c of None \<Rightarrow> NaN | Some x \<Rightarrow> x)"

text \<open>A column without text: every cell has a float64 value.\<close>

definition numeric_column :: "cell list \<Rightarrow> bool" where
  "numeric_column col = list_all (\<lambda>c. to_float64 c \<noteq> None) col"

text \<open>
  The interquartile-range rule, computed in float64 as the tool computes it: with
  \<open>IQR = Q3 - Q1\<close>, the fences are \<open>Q1 - 1.5 * IQR\<close> and \<open>Q3 + 1.5 * IQR\<close>, each
  operation rounded; the interval between them includes both.
\<close>

definition fence_lower :: "float64 \<Rightarrow> float64 \<Rightarrow> float64" where
  "fence_lower q1 q3 = f_sub q1 (f_mul (Num (3/2)) (f_sub q3 q1))"

definition fence_upper :: "float64 \<Rightarrow> float64 \<Rightarrow> float64" where
  "fence_upper q1 q3 = f_add q3 (f_mul (Num (3/2)) (f_sub q3 q1))"

definition in_closed_interval :: "float64 \<Rightarrow> float64 \<Rightarrow> float64 \<Rightarrow> bool" where
  "in_closed_interval lo hi x = (f_le lo x \<and> f_le x hi)"

text \<open>The same fences computed exactly, over the real numbers.\<close>

definition exact_lower :: "real \<Rightarrow> real \<Rightarrow> real" where
  "exact_lower q1 q3 = q1 - 3/2 * (q3 - q1)"

definition exact_upper :: "real \<Rightarrow> real \<Rightarrow> real" where
  "exact_upper q1 q3 = q3 + 3/2 * (q3 - q1)"

text \<open>
  The lines the calls made so far contribute to the answer: for each tool call, in the order
  of the calls, the line that announces it and the line that shows what it returned.
\<close>

fun transcript_lines :: "('a, 'c, 'w) env \<Rightarrow> ('a, 'c) event list \<Rightarrow> string list" where
  "transcript_lines e [] = []"
| "transcript_lines e (ModelCall ms # es) = transcript_lines e es"
| "transcript_lines e (ToolCall tool_name tool_args result # es) =
     calling_line e tool_name tool_args # response_line e result # transcript_lines e es"

section \<open>Example data\<close>

text \<open>
  A quantile function for the examples: linear interpolation between the sorted finite
  values of the column, rounded once; \<open>TypeError\<close> on a column with text. When the
  position \<open>(n - 1) * q\<close> is a whole number the result is the value at that position, as
  with pandas.
\<close>

definition present_values :: "float64 list \<Rightarrow> real list" where
  "present_values xs = concat (map (\<lambda>x. case x of Num a \<Rightarrow> [a] | _ \<Rightarrow> []) xs)"

definition linear_quantile :: "cell list \<Rightarrow> real \<Rightarrow> error + float64" where
  "linear_quantile col q =
     (case those (map to_float64 col) of
        None \<Rightarrow> Inl TypeError
      | Some fs \<Rightarrow>
          (let xs = sort (present_values fs); n = length xs
           in if n = 0 then Inr NaN
              else (let h = real (n - 1) * q; k = nat \<lfloor>h\<rfloor>
                    in if k + 1 < n
                       then Inr (round64 (xs ! k + (h - real k) * (xs ! (k + 1) - xs ! k)))
                       else Inr (Num (xs ! k)))))"

text \<open>A table of numbers with a missing value.\<close>

definition passengers :: dataframe where
  "passengers =
     \<lparr>columns = [''age'', ''fare''],
      rows = [[FloatCell (Num 22), FloatCell (Num 1)], [FloatCell (Num 38), FloatCell (Num 2)],
              [FloatCell NaN, FloatCell (Num 3)], [FloatCell (Num 4), FloatCell (Num 4)],
              [FloatCell (Num 30), FloatCell (Num 100)]]\<rparr>"

text \<open>A table with a text column and an int64 column.\<close>

definition crew :: dataframe where
  "crew =
     \<lparr>columns = [''name'', ''ticket''],
      rows = [[StrCell ''Allen'', IntCell 9007199254740993],
              [StrCell ''Braund'', IntCell 9007199254740992]]\<rparr>"

text \<open>
  The float64 values nearest to 0.1, 0.4, 1.8 and 3.9, as \<open>read_csv\<close> parses these
  decimals, and a table of one column that holds them and 1.0.
\<close>

definition d01 :: real where "d01 = 3602879701896397 / 2 ^ 55"
definition d04 :: real where "d04 = 3602879701896397 / 2 ^ 53"
definition d18 :: real where "d18 = 8106479329266893 / 2 ^ 52"
definition d39 :: real where "d39 = 8782019273372467 / 2 ^ 51"

definition measurements :: dataframe where
  "measurements =
     \<lparr>columns = [''x''],
      rows = [[FloatCell (Num d01)], [FloatCell (Num d04)], [FloatCell (Num 1)],
              [FloatCell (Num d18)], [FloatCell (Num d39)]]\<rparr>"

text \<open>
  Two environments for the conversation loop. In the first the model asks for the column
  names and then stops; the world counts the model calls. In the second the model's answer
  is cut at the token limit, so every response has the finish reason \<open>length\<close>.
\<close>

definition example_env :: "(string, string, nat) env" where
  "example_env =
     \<lparr>create = (\<lambda>ms n.
        (if n = 0 then
           \<lparr>finish_reason = ''tool_calls'', message_content = None,
            message_tool_calls =
              Some [\<lparr>function_name = ''get_column_names'', function_arguments = ''{}''\<rparr>]\<rparr>
         else
           \<lparr>finish_reason = ''stop'', message_content = Some ''Two columns.'',
            message_tool_calls = None\<rparr>,
         Suc n)),
      call_tool = (\<lambda>tool_name tool_args n. (''age, fare'', n)),
      json_loads = Some,
      str_args = (\<lambda>tool_args. tool_args),
      str_content = (\<lambda>result. result)\<rparr>"

definition truncating_env :: "(string, string, unit) env" where
  "truncating_env =
     \<lparr>create = (\<lambda>ms u.
        (\<lparr>finish_reason = ''length'', message_content = Some ''The table has'',
          message_tool_calls = None\<rparr>, u)),
      call_tool = (\<lambda>tool_name tool_args u. ([], u)),
      json_loads = Some,
      str_args = (\<lambda>tool_args. tool_args),
      str_content = (\<lambda>result. result)\<rparr>"

section \<open>Path resolution of \<open>load_data\<close>\<close>



section \<open>float64 arithmetic on the examples\<close>

lemma round64_examples:
  "round64 9007199254740992 = Num 9007199254740992"
  "round64 9007199254740993 = Num 9007199254740992"
  by code_simp+

lemma measurements_fences:
  "fence_lower (Num d04) (Num d18) = Num (- 15312238733059684 / 2 ^ 53)"
  "fence_upper (Num d04) (Num d18) = Num (8782019273372466 / 2 ^ 51)"
  by code_simp+

section \<open>Tools called before \<open>load_data\<close>\<close>

lemma series_tool_None:
  "series_tool f None c = (Inl (AssertionError must_load), None)"
  by (simp add: series_tool_def)

lemma tools_before_load_raise:
  "get_column_names None = (Inl (AssertionError must_load), None)"
  "describe_column describe None c = (Inl (AssertionError must_load), None)"
  "get_value_counts value_counts None c = (Inl (AssertionError must_load), None)"
  "filter_tool None c v by = (Inl (AssertionError must_load), None)"
  "remove_outliers quantile None c = (Inl (AssertionError must_load), None)"
  "compute_mean mean None c = (Inl (AssertionError must_load), None)"
  "compute_standard_deviation std None c = (Inl (AssertionError must_load), None)"
  by (simp_all add: get_column_names_def describe_column_def get_value_counts_def
      filter_tool_def remove_outliers_def compute_mean_def compute_standard_deviation_def
      series_tool_None)

text \<open>
  C1. Called through the session while \<open>df\<close> is \<open>None\<close>, each of the seven tools answers
  with a result that has \<open>isError\<close> set and carries the \<open>AssertionError\<close> with the message
  \<open>Must execute `load_data` first.\<close>, whatever the arguments; no exception leaves the
  call, and \<open>df\<close> stays \<open>None\<close>. Inside the tool function the failure is the \<open>assert\<close>
  that raises; the registration with \<open>@mcp.tool()\<close> turns it into the result.
\<close>

theorem tools_before_load_answer_with_cause:
  \<open>mcp_tool ''get_column_names'' (get_column_names None) =
     (IsError ''get_column_names'' (AssertionError ''Must execute `load_data` first.''), None)
   \<and> mcp_tool ''describe_column'' (describe_column describe None c) =
     (IsError ''describe_column'' (AssertionError ''Must execute `load_data` first.''), None)
   \<and> mcp_tool ''get_value_counts'' (get_value_counts value_counts None c) =
     (IsError ''get_value_counts'' (AssertionError ''Must execute `load_data` first.''), None)
   \<and> mcp_tool ''filter'' (filter_tool None c v by) =
     (IsError ''filter'' (AssertionError ''Must execute `load_data` first.''), None)
   \<and> mcp_tool ''remove_outliers'' (remove_outliers quantile None c) =
     (IsError ''remove_outliers'' (AssertionError ''Must execute `load_data` first.''), None)
   \<and> mcp_tool ''compute_mean'' (compute_mean mean None c) =
     (IsError ''compute_mean'' (AssertionError ''Must execute `load_data` first.''), None)
   \<and> mcp_tool ''compute_standard_deviation'' (compute_standard_deviation std None c) =
     (IsError ''compute_standard_deviation''
        (AssertionError ''Must execute `load_data` first.''), None)\<close>
  by (simp add: mcp_tool_def tools_before_load_raise must_load_def)

section \<open>Read-only tools\<close>

lemma series_tool_state: "snd (series_tool f df c) = df"
  by (simp add: series_tool_def split: option.split sum.split)

text \<open>
  C7. \<open>get_column_names\<close>, \<open>describe_column\<close>, \<open>get_value_counts\<close>, \<open>compute_mean\<close> and
  \<open>compute_standard_deviation\<close> leave a loaded table as it is, columns and rows, whether
  they return or raise.
\<close>

theorem read_only_tools_keep_dataset:
  "snd (get_column_names (Some d)) = Some d
   \<and> snd (describe_column describe (Some d) c) = Some d
   \<and> snd (get_value_counts value_counts (Some d) c) = Some d
   \<and> snd (compute_mean mean (Some d) c) = Some d
   \<and> snd (compute_standard_deviation std (Some d) c) = Some d"
  by (simp add: get_column_names_def describe_column_def get_value_counts_def
      compute_mean_def compute_standard_deviation_def series_tool_state)

section \<open>\<open>filter\<close>\<close>

lemma select_by_mask: "map fst (filter snd (zip xs (map f xs))) = filter f xs"
  by (induction xs) auto

lemma index_of_present: "c \<in> set cs \<Longrightarrow> \<exists>i. index_of c cs = Some i"
  by (induction cs) auto

lemma index_of_absent: "c \<notin> set cs \<Longrightarrow> index_of c cs = None"
  by (induction cs) auto

lemma getitem_column_present:
  "c \<in> set (columns d) \<Longrightarrow> getitem_column d c = Inr (column_values d c)"
  using index_of_present [of c "columns d"]
  by (auto simp: getitem_column_def column_values_def row_value_def)

lemma getitem_mask_column:
  "getitem_mask d (map f (column_values d c)) = d\<lparr>rows := filter (\<lambda>r. f (row_value d c r)) (rows d)\<rparr>"
proof -
  have "map f (column_values d c) = map (\<lambda>r. f (row_value d c r)) (rows d)"
    by (simp add: column_values_def)
  then show ?thesis
    by (simp add: getitem_mask_def select_by_mask)
qed

lemma those_numeric:
  "numeric_column col \<Longrightarrow> those (map to_float64 col) = Some (map float_value col)"
  by (induction col) (auto simp: numeric_column_def float_value_def)

lemma those_text:
  "\<not> numeric_column col \<Longrightarrow> those (map to_float64 col) = None"
  by (induction col) (auto simp: numeric_column_def split: option.splits)

lemma series_eq_values:
  "series_eq col v = Inr (map (\<lambda>c. f_eq (float_value c) v) col)"
  by (simp add: series_eq_def float_value_def split: option.split)

lemma series_ord_numeric:
  "numeric_column col \<Longrightarrow> series_ord cmp col v = Inr (map (\<lambda>c. cmp (float_value c) v) col)"
  by (simp add: series_ord_def those_numeric comp_def)

lemma series_ord_text:
  "\<not> numeric_column col \<Longrightarrow> series_ord cmp col v = Inl TypeError"
  by (simp add: series_ord_def those_text)

text \<open>The series comparison that \<open>filter\<close> uses for a comparator.\<close>

lemma filter_tool_valid:
  assumes "by \<in> valid_comparators"
  shows "filter_tool (Some d) c v by =
     (case narrow d c (if by = ''equal'' then series_eq
                       else series_ord (stated_comparison by)) v of
        Inl e \<Rightarrow> (Inl e, Some d)
      | Inr d' \<Rightarrow> (Inr \<lparr>success = True, information = DataSize (shape0 d')\<rparr>, Some d'))"
proof -
  have ord: "stated_comparison ''less'' = f_lt" "stated_comparison ''less/equal'' = f_le"
    "stated_comparison ''greater'' = f_gt" "stated_comparison ''greater/equal'' = f_ge"
    by (rule ext, rule ext, simp add: stated_comparison_def)+
  from assms consider "by = ''equal''" | "by = ''less''" | "by = ''less/equal''"
    | "by = ''greater''" | "by = ''greater/equal''"
    by (auto simp: valid_comparators_def)
  then show ?thesis
    by cases (simp_all add: filter_tool_def ord)
qed

lemma narrow_eq_present:
  assumes "c \<in> set (columns d)"
  shows "narrow d c series_eq v =
     Inr (d\<lparr>rows := filter (\<lambda>r. stated_comparison ''equal'' (float_value (row_value d c r)) v)
                     (rows d)\<rparr>)"
  by (simp add: narrow_def getitem_column_present [OF assms] series_eq_values
      getitem_mask_column stated_comparison_def)

lemma narrow_ord_numeric:
  assumes "c \<in> set (columns d)" and "numeric_column (column_values d c)"
  shows "narrow d c (series_ord cmp) v =
     Inr (d\<lparr>rows := filter (\<lambda>r. cmp (float_value (row_value d c r)) v) (rows d)\<rparr>)"
  by (simp add: narrow_def getitem_column_present [OF assms(1)] series_ord_numeric [OF assms(2)]
      getitem_mask_column)

lemma narrow_ord_text:
  assumes "c \<in> set (columns d)" and "\<not> numeric_column (column_values d c)"
  shows "narrow d c (series_ord cmp) v = Inl TypeError"
  by (simp add: narrow_def getitem_column_present [OF assms(1)] series_ord_text [OF assms(2)])

lemma filter_tool_succeeds:
  assumes "c \<in> set (columns d)" and "by \<in> valid_comparators"
    and "by = ''equal'' \<or> numeric_column (column_values d c)"
  shows "filter_tool (Some d) c v by =
     (Inr \<lparr>success = True,
           information = DataSize (length (filter
             (\<lambda>r. stated_comparison by (float_value (row_value d c r)) v) (rows d)))\<rparr>,
      Some (d\<lparr>rows := filter (\<lambda>r. stated_comparison by (float_value (row_value d c r)) v)
                         (rows d)\<rparr>))"
proof (cases "by = ''equal''")
  case True
  with assms(2) have valid: "''equal'' \<in> valid_comparators"
    by simp
  show ?thesis
    unfolding True
    by (simp add: filter_tool_valid [OF valid] narrow_eq_present [OF assms(1)] shape0_def)
next
  case False
  with assms(3) have "numeric_column (column_values d c)"
    by simp
  with False show ?thesis
    by (simp add: filter_tool_valid [OF assms(2)] narrow_ord_numeric [OF assms(1)] shape0_def)
qed

lemma filter_tool_raises:
  assumes "c \<in> set (columns d)" and "by \<in> valid_comparators"
    and "by \<noteq> ''equal''" and "\<not> numeric_column (column_values d c)"
  shows "filter_tool (Some d) c v by = (Inl TypeError, Some d)"
  using assms(3)
  by (simp add: filter_tool_valid [OF assms(2)] narrow_ord_text [OF assms(1) assms(4)])

text \<open>
  C2, as the code has it. On a table that has the named column, with no text in that
  column (or with the comparator \<open>equal\<close>, for which text does no harm), \<open>filter\<close> with
  one of the five comparators returns successfully and replaces the table by one with the
  same columns whose rows are the rows that satisfy the comparison, in their order. The
  comparison is that of the cell's value as a float64 with the given value. So there are no
  more rows than before, every row kept satisfies the comparison, every row of the old table
  that is not kept fails it, and the result reports the new number of rows.
\<close>

theorem filter_keeps_exactly_matching_rows:
  assumes "column_name \<in> set (columns d)" and "by \<in> valid_comparators"
    and "by = ''equal'' \<or> numeric_column (column_values d column_name)"
  shows "\<exists>d'. filter_tool (Some d) column_name v by =
            (Inr \<lparr>success = True, information = DataSize (length (rows d'))\<rparr>, Some d')
          \<and> columns d' = columns d
          \<and> rows d' =
              filter (\<lambda>r. stated_comparison by (float_value (row_value d column_name r)) v)
                (rows d)
          \<and> length (rows d') \<le> length (rows d)
          \<and> (\<forall>r \<in> set (rows d').
                stated_comparison by (float_value (row_value d column_name r)) v)
          \<and> (\<forall>r \<in> set (rows d). r \<notin> set (rows d') \<longrightarrow>
                \<not> stated_comparison by (float_value (row_value d column_name r)) v)"
proof -
  let ?P = "\<lambda>r. stated_comparison by (float_value (row_value d column_name r)) v"
  let ?d' = "d\<lparr>rows := filter ?P (rows d)\<rparr>"
  have "filter_tool (Some d) column_name v by =
          (Inr \<lparr>success = True, information = DataSize (length (rows ?d'))\<rparr>, Some ?d')"
    using filter_tool_succeeds [OF assms] by simp
  moreover have "columns ?d' = columns d" and "rows ?d' = filter ?P (rows d)"
    by simp_all
  moreover have "length (rows ?d') \<le> length (rows d)"
    by simp
  moreover have "\<forall>r \<in> set (rows ?d'). ?P r"
    by simp
  moreover have "\<forall>r \<in> set (rows d). r \<notin> set (rows ?d') \<longrightarrow> \<not> ?P r"
    by simp
  ultimately show ?thesis
    by blast
qed

lemma passengers_age_numeric: "numeric_column (column_values passengers ''age'')"
  by (simp add: numeric_column_def column_values_def row_value_def cell_at_def passengers_def)

theorem filter_keeps_exactly_matching_rows_witness:
  "''age'' \<in> set (columns passengers) \<and> ''less'' \<in> valid_comparators
   \<and> numeric_column (column_values passengers ''age'')
   \<and> filter_tool (Some passengers) ''age'' (Num 30) ''less'' =
       (Inr \<lparr>success = True, information = DataSize 2\<rparr>,
        Some \<lparr>columns = [''age'', ''fare''],
              rows = [[FloatCell (Num 22), FloatCell (Num 1)],
                      [FloatCell (Num 4), FloatCell (Num 4)]]\<rparr>)"
proof -
  have c: "''age'' \<in> set (columns passengers)"
    by (simp add: passengers_def)
  have b: "''less'' \<in> valid_comparators"
    by (simp add: valid_comparators_def)
  have n: "''less'' = ''equal'' \<or> numeric_column (column_values passengers ''age'')"
    by (simp add: passengers_age_numeric)
  from filter_keeps_exactly_matching_rows [OF c b n, of "Num 30"]
  obtain d' where r: "filter_tool (Some passengers) ''age'' (Num 30) ''less'' =
        (Inr \<lparr>success = True, information = DataSize (length (rows d'))\<rparr>, Some d')"
    and cs: "columns d' = columns passengers"
    and rs: "rows d' =
        filter (\<lambda>r. stated_comparison ''less'' (float_value (row_value passengers ''age'' r)) (Num 30))
          (rows passengers)"
    by blast
  from rs have rs': "rows d' = [[FloatCell (Num 22), FloatCell (Num 1)],
                               [FloatCell (Num 4), FloatCell (Num 4)]]"
    by (simp add: passengers_def stated_comparison_def row_value_def cell_at_def float_value_def)
  from cs rs' have "d' = \<lparr>columns = [''age'', ''fare''],
      rows = [[FloatCell (Num 22), FloatCell (Num 1)], [FloatCell (Num 4), FloatCell (Num 4)]]\<rparr>"
    by (cases d') (simp add: passengers_def)
  with r rs' c b passengers_age_numeric show ?thesis
    by simp
qed

lemma crew_columns:
  "column_values crew ''name'' = [StrCell ''Allen'', StrCell ''Braund'']"
  "column_values crew ''ticket'' = [IntCell 9007199254740993, IntCell 9007199254740992]"
  by (simp_all add: column_values_def row_value_def cell_at_def crew_def)

text \<open>
  C2, as the specification states it, fails on a table that has the named column. On a
  text column an order comparison raises \<open>TypeError\<close>: no table is produced and \<open>df\<close>
  stays as it was. On an int64 column the cells are compared after conversion to float64:
  \<open>equal\<close> against \<open>2 ^ 53\<close> keeps the row whose cell is \<open>2 ^ 53 + 1\<close>.
\<close>

theorem filter_on_text_or_large_integers:
  "filter_tool (Some crew) ''name'' (Num 1) ''less'' = (Inl TypeError, Some crew)
   \<and> filter_tool (Some crew) ''ticket'' (Num 9007199254740992) ''equal'' =
       (Inr \<lparr>success = True, information = DataSize 2\<rparr>, Some crew)"
proof -
  have name: "''name'' \<in> set (columns crew)" and ticket: "''ticket'' \<in> set (columns crew)"
    by (simp_all add: crew_def)
  have lt: "''less'' \<in> valid_comparators" and eq: "''equal'' \<in> valid_comparators"
    by (simp_all add: valid_comparators_def)
  have strings: "\<not> numeric_column (column_values crew ''name'')"
    by (simp add: crew_columns numeric_column_def)
  have first: "filter_tool (Some crew) ''name'' (Num 1) ''less'' = (Inl TypeError, Some crew)"
    using filter_tool_raises [OF name lt _ strings] by simp
  have keep: "filter (\<lambda>r. stated_comparison ''equal'' (float_value (row_value crew ''ticket'' r))
                  (Num 9007199254740992)) (rows crew) = rows crew"
    by (simp add: crew_def row_value_def cell_at_def float_value_def stated_comparison_def
        round64_examples)
  have "filter_tool (Some crew) ''ticket'' (Num 9007199254740992) ''equal'' =
       (Inr \<lparr>success = True, information = DataSize (length (rows crew))\<rparr>, Some crew)"
    using filter_tool_succeeds [OF ticket eq, of "Num 9007199254740992"] by (simp add: keep)
  with first show ?thesis
    by (simp add: crew_def)
qed

text \<open>
  C4. On a loaded table, \<open>filter\<close> with a comparator that is not one of the five returns
  the failure dictionary, whose message quotes the comparator, and leaves the table as it
  is; it does not raise, and it does not look at the column.
\<close>

theorem filter_unrecognized_comparator:
  assumes "by \<notin> valid_comparators"
  shows \<open>filter_tool (Some d) column_name v by =
     (Inr \<lparr>success = False,
           information = ErrorMessage (''Unrecognized value for `by`: "'' @ by @ ''".'')\<rparr>,
      Some d)\<close>
  using assms by (simp add: filter_tool_def valid_comparators_def unrecognized_def)

theorem filter_unrecognized_comparator_witness:
  \<open>''bogus'' \<notin> valid_comparators
   \<and> filter_tool (Some passengers) ''age'' (Num 30) ''bogus'' =
       (Inr \<lparr>success = False,
             information = ErrorMessage ''Unrecognized value for `by`: "bogus".''\<rparr>,
        Some passengers)\<close>
proof -
  have b: "''bogus'' \<notin> valid_comparators"
    by (simp add: valid_comparators_def)
  show ?thesis
    using b filter_unrecognized_comparator [OF b, of passengers "''age''" "Num 30"] by simp
qed

lemma numeric_column_filter:
  "numeric_column (column_values d c) \<Longrightarrow>
   numeric_column (column_values (d\<lparr>rows := filter P (rows d)\<rparr>) c)"
  by (simp add: numeric_column_def column_values_def row_value_def list_all_iff)

lemma text_column_unchanged_rows:
  "row_value (d\<lparr>rows := rs\<rparr>) c = row_value d c"
  by (rule ext) (simp add: row_value_def)

text \<open>
  C8. On a table that has the named column, applying \<open>filter\<close> with the same column,
  value and comparator a second time, to the table the first application left, gives the
  same outcome and leaves the same table. Either both applications raise \<open>TypeError\<close> and
  the table is the one before the first, or both succeed and report the same number of
  rows, the rows the first application kept. They succeed whenever the column has no text,
  and for the comparator \<open>equal\<close>.
\<close>

theorem filter_twice_is_idempotent:
  assumes "column_name \<in> set (columns d)" and "by \<in> valid_comparators"
  shows "\<exists>r d1. filter_tool (Some d) column_name v by = (r, Some d1)
          \<and> filter_tool (Some d1) column_name v by = (r, Some d1)
          \<and> (r = Inl TypeError \<and> d1 = d
              \<or> r = Inr \<lparr>success = True, information = DataSize (length (rows d1))\<rparr>)
          \<and> (by = ''equal'' \<or> numeric_column (column_values d column_name) \<longrightarrow>
                r = Inr \<lparr>success = True, information = DataSize (length (rows d1))\<rparr>)"
proof (cases "by = ''equal'' \<or> numeric_column (column_values d column_name)")
  case True
  let ?P = "\<lambda>r. stated_comparison by (float_value (row_value d column_name r)) v"
  let ?d1 = "d\<lparr>rows := filter ?P (rows d)\<rparr>"
  have first: "filter_tool (Some d) column_name v by =
          (Inr \<lparr>success = True, information = DataSize (length (rows ?d1))\<rparr>, Some ?d1)"
    using filter_tool_succeeds [OF assms True] by simp
  have present: "column_name \<in> set (columns ?d1)"
    using assms(1) by simp
  have still: "by = ''equal'' \<or> numeric_column (column_values ?d1 column_name)"
    using True numeric_column_filter by blast
  have "filter_tool (Some ?d1) column_name v by =
          (Inr \<lparr>success = True, information = DataSize (length (rows ?d1))\<rparr>, Some ?d1)"
    using filter_tool_succeeds [OF present assms(2) still, of v]
    by (simp add: text_column_unchanged_rows)
  with first show ?thesis
    by blast
next
  case False
  then have "filter_tool (Some d) column_name v by = (Inl TypeError, Some d)"
    using filter_tool_raises [OF assms] by simp
  with False show ?thesis
    by blast
qed

theorem filter_twice_is_idempotent_witness:
  "''age'' \<in> set (columns passengers) \<and> ''greater/equal'' \<in> valid_comparators
   \<and> filter_tool (Some passengers) ''age'' (Num 30) ''greater/equal'' =
       (Inr \<lparr>success = True, information = DataSize 2\<rparr>,
        Some \<lparr>columns = [''age'', ''fare''],
              rows = [[FloatCell (Num 38), FloatCell (Num 2)],
                      [FloatCell (Num 30), FloatCell (Num 100)]]\<rparr>)
   \<and> filter_tool
       (Some \<lparr>columns = [''age'', ''fare''],
              rows = [[FloatCell (Num 38), FloatCell (Num 2)],
                      [FloatCell (Num 30), FloatCell (Num 100)]]\<rparr>)
       ''age'' (Num 30) ''greater/equal'' =
       (Inr \<lparr>success = True, information = DataSize 2\<rparr>,
        Some \<lparr>columns = [''age'', ''fare''],
              rows = [[FloatCell (Num 38), FloatCell (Num 2)],
                      [FloatCell (Num 30), FloatCell (Num 100)]]\<rparr>)"
proof -
  let ?kept = "\<lparr>columns = [''age'', ''fare''],
                rows = [[FloatCell (Num 38), FloatCell (Num 2)],
                        [FloatCell (Num 30), FloatCell (Num 100)]]\<rparr>"
  have c: "''age'' \<in> set (columns passengers)"
    by (simp add: passengers_def)
  have b: "''greater/equal'' \<in> valid_comparators"
    by (simp add: valid_comparators_def)
  from filter_twice_is_idempotent [OF c b, of "Num 30"]
  obtain r d1 where first: "filter_tool (Some passengers) ''age'' (Num 30) ''greater/equal'' =
        (r, Some d1)"
    and second: "filter_tool (Some d1) ''age'' (Num 30) ''greater/equal'' = (r, Some d1)"
    by blast
  have "filter_tool (Some passengers) ''age'' (Num 30) ''greater/equal'' =
          (Inr \<lparr>success = True, information = DataSize 2\<rparr>, Some ?kept)"
    using filter_tool_succeeds [OF c b, of "Num 30"] passengers_age_numeric
    by (simp add: passengers_def stated_comparison_def row_value_def cell_at_def float_value_def
        f_ge_def)
  with first have "r = Inr \<lparr>success = True, information = DataSize 2\<rparr>" and "d1 = ?kept"
    by simp_all
  with first second c b show ?thesis
    by simp
qed

section \<open>\<open>remove_outliers\<close>\<close>

lemma conjoin_masks: "map2 (\<and>) (map f xs) (map g xs) = map (\<lambda>x. f x \<and> g x) xs"
  by (induction xs) auto

lemma remove_outliers_numeric:
  assumes "c \<in> set (columns d)"
    and "quantile (column_values d c) (1/4) = Inr q1"
    and "quantile (column_values d c) (3/4) = Inr q3"
    and "numeric_column (column_values d c)"
  shows "remove_outliers quantile (Some d) c =
     (let keep = (\<lambda>r. in_closed_interval (fence_lower q1 q3) (fence_upper q1 q3)
                        (float_value (row_value d c r)))
      in (Inr \<lparr>success = True, information = DataSize (length (filter keep (rows d)))\<rparr>,
          Some (d\<lparr>rows := filter keep (rows d)\<rparr>)))"
proof -
  have decimals: "(0.25::real) = 1/4" "(0.75::real) = 3/4" "(1.5::real) = 3/2"
    by simp_all
  show ?thesis
    unfolding remove_outliers_def Let_def decimals
    by (simp add: getitem_column_present [OF assms(1)] assms(2,3)
        series_ord_numeric [OF assms(4)] conjoin_masks getitem_mask_column shape0_def
        fence_lower_def fence_upper_def in_closed_interval_def f_ge_def)
qed

text \<open>
  C5, as the code has it. On a loaded table that has the named column, with no text in it,
  for which \<open>quantile\<close> returns \<open>Q1\<close> at a quarter and \<open>Q3\<close> at three quarters,
  \<open>remove_outliers\<close> returns successfully and replaces the table by one with the same
  columns whose rows are exactly the rows whose value in the column, as a float64, lies
  between the two fences, ends included. The fences are \<open>Q1 - 1.5 * IQR\<close> and
  \<open>Q3 + 1.5 * IQR\<close> with \<open>IQR = Q3 - Q1\<close> as float64 arithmetic computes them, every
  operation rounded. The result reports the new number of rows.
\<close>

theorem remove_outliers_keeps_interval:
  assumes "column_name \<in> set (columns d)"
    and "quantile (column_values d column_name) (1/4) = Inr q1"
    and "quantile (column_values d column_name) (3/4) = Inr q3"
    and "numeric_column (column_values d column_name)"
  shows "\<exists>d'. remove_outliers quantile (Some d) column_name =
            (Inr \<lparr>success = True, information = DataSize (length (rows d'))\<rparr>, Some d')
          \<and> columns d' = columns d
          \<and> rows d' =
              filter (\<lambda>r. in_closed_interval (fence_lower q1 q3) (fence_upper q1 q3)
                             (float_value (row_value d column_name r)))
                (rows d)"
proof -
  let ?keep = "\<lambda>r. in_closed_interval (fence_lower q1 q3) (fence_upper q1 q3)
                       (float_value (row_value d column_name r))"
  let ?d' = "d\<lparr>rows := filter ?keep (rows d)\<rparr>"
  have "remove_outliers quantile (Some d) column_name =
          (Inr \<lparr>success = True, information = DataSize (length (rows ?d'))\<rparr>, Some ?d')"
    using remove_outliers_numeric [where quantile = quantile, OF assms] by (simp add: Let_def)
  moreover have "columns ?d' = columns d" and "rows ?d' = filter ?keep (rows d)"
    by simp_all
  ultimately show ?thesis
    by blast
qed

lemma fares:
  "column_values passengers ''fare'' =
     [FloatCell (Num 1), FloatCell (Num 2), FloatCell (Num 3), FloatCell (Num 4),
      FloatCell (Num 100)]"
  by (simp add: column_values_def row_value_def cell_at_def passengers_def)

lemma fares_quartiles:
  "linear_quantile (column_values passengers ''fare'') (1/4) = Inr (Num 2)"
  "linear_quantile (column_values passengers ''fare'') (3/4) = Inr (Num 4)"
  unfolding fares by code_simp+

lemma fares_fences:
  "fence_lower (Num 2) (Num 4) = Num (- 1)"
  "fence_upper (Num 2) (Num 4) = Num 7"
  by code_simp+

theorem remove_outliers_keeps_interval_witness:
  "''fare'' \<in> set (columns passengers)
   \<and> linear_quantile (column_values passengers ''fare'') (1/4) = Inr (Num 2)
   \<and> linear_quantile (column_values passengers ''fare'') (3/4) = Inr (Num 4)
   \<and> numeric_column (column_values passengers ''fare'')
   \<and> fence_lower (Num 2) (Num 4) = Num (- 1)
   \<and> fence_upper (Num 2) (Num 4) = Num 7
   \<and> remove_outliers linear_quantile (Some passengers) ''fare'' =
       (Inr \<lparr>success = True, information = DataSize 4\<rparr>,
        Some \<lparr>columns = [''age'', ''fare''],
              rows = [[FloatCell (Num 22), FloatCell (Num 1)],
                      [FloatCell (Num 38), FloatCell (Num 2)],
                      [FloatCell NaN, FloatCell (Num 3)],
                      [FloatCell (Num 4), FloatCell (Num 4)]]\<rparr>)"
proof -
  have c: "''fare'' \<in> set (columns passengers)"
    by (simp add: passengers_def)
  have n: "numeric_column (column_values passengers ''fare'')"
    by (simp add: fares numeric_column_def)
  from remove_outliers_keeps_interval [where quantile = linear_quantile, OF c fares_quartiles n]
  obtain d' where r: "remove_outliers linear_quantile (Some passengers) ''fare'' =
        (Inr \<lparr>success = True, information = DataSize (length (rows d'))\<rparr>, Some d')"
    and cs: "columns d' = columns passengers"
    and rs: "rows d' =
        filter (\<lambda>r. in_closed_interval (Num (- 1)) (Num 7)
                       (float_value (row_value passengers ''fare'' r)))
          (rows passengers)"
    unfolding fares_fences by blast
  from rs have rs': "rows d' = [[FloatCell (Num 22), FloatCell (Num 1)],
                               [FloatCell (Num 38), FloatCell (Num 2)],
                               [FloatCell NaN, FloatCell (Num 3)],
                               [FloatCell (Num 4), FloatCell (Num 4)]]"
    by (simp add: passengers_def in_closed_interval_def row_value_def cell_at_def float_value_def)
  from cs rs' have "d' = \<lparr>columns = [''age'', ''fare''],
        rows = [[FloatCell (Num 22), FloatCell (Num 1)], [FloatCell (Num 38), FloatCell (Num 2)],
                [FloatCell NaN, FloatCell (Num 3)], [FloatCell (Num 4), FloatCell (Num 4)]]\<rparr>"
    by (cases d') (simp add: passengers_def)
  with r rs' c n fares_quartiles fares_fences show ?thesis
    by simp
qed

lemma xs_values:
  "column_values measurements ''x'' =
     [FloatCell (Num d01), FloatCell (Num d04), FloatCell (Num 1), FloatCell (Num d18),
      FloatCell (Num d39)]"
  by (simp add: column_values_def row_value_def cell_at_def measurements_def)

lemma xs_quartiles:
  "linear_quantile (column_values measurements ''x'') (1/4) = Inr (Num d04)"
  "linear_quantile (column_values measurements ''x'') (3/4) = Inr (Num d18)"
  unfolding xs_values by code_simp+

text \<open>
  C5, as the specification states it, fails. In the column 0.1, 0.4, 1.0, 1.8, 3.9 the
  quartiles are 0.4 and 1.8, and 3.9 lies between the fences computed exactly from them.
  The tool computes the upper fence in float64, where it comes out one step below 3.9, and
  removes the row.
\<close>

theorem remove_outliers_drops_value_inside_exact_interval:
  "linear_quantile (column_values measurements ''x'') (1/4) = Inr (Num d04)
   \<and> linear_quantile (column_values measurements ''x'') (3/4) = Inr (Num d18)
   \<and> exact_lower d04 d18 \<le> d39 \<and> d39 \<le> exact_upper d04 d18
   \<and> remove_outliers linear_quantile (Some measurements) ''x'' =
       (Inr \<lparr>success = True, information = DataSize 4\<rparr>,
        Some \<lparr>columns = [''x''],
              rows = [[FloatCell (Num d01)], [FloatCell (Num d04)], [FloatCell (Num 1)],
                      [FloatCell (Num d18)]]\<rparr>)"
proof -
  have c: "''x'' \<in> set (columns measurements)"
    by (simp add: measurements_def)
  have n: "numeric_column (column_values measurements ''x'')"
    by (simp add: xs_values numeric_column_def)
  have inside: "exact_lower d04 d18 \<le> d39" "d39 \<le> exact_upper d04 d18"
    by (simp_all add: exact_lower_def exact_upper_def d04_def d18_def d39_def)
  have kept: "filter (\<lambda>r. in_closed_interval (fence_lower (Num d04) (Num d18))
                  (fence_upper (Num d04) (Num d18)) (float_value (row_value measurements ''x'' r)))
                (rows measurements) =
        [[FloatCell (Num d01)], [FloatCell (Num d04)], [FloatCell (Num 1)], [FloatCell (Num d18)]]"
    unfolding measurements_fences
    by (simp add: measurements_def in_closed_interval_def row_value_def cell_at_def float_value_def)
       (simp add: d01_def d04_def d18_def d39_def)
  have "remove_outliers linear_quantile (Some measurements) ''x'' =
       (Inr \<lparr>success = True, information = DataSize 4\<rparr>,
        Some (measurements\<lparr>rows := [[FloatCell (Num d01)], [FloatCell (Num d04)],
                                   [FloatCell (Num 1)], [FloatCell (Num d18)]]\<rparr>))"
    using remove_outliers_numeric [where quantile = linear_quantile, OF c xs_quartiles n]
    by (simp add: Let_def kept)
  then show ?thesis
    using inside xs_quartiles by (simp add: measurements_def)
qed

section \<open>The conversation loop\<close>

subsection \<open>Running the loop\<close>

lemma run_query_loop:
  fixes e :: "('a, 'c, 'w) env"
  assumes "create e [\<lparr>role = ''user'', content = Text query\<rparr>] w = (r0, w0)"
  shows "run_query e query w =
     loop e \<lparr>messages = [\<lparr>role = ''user'', content = Text query\<rparr>], final_text = [],
              response = r0, world = w0, stdout = [],
              trace = [ModelCall [\<lparr>role = ''user'', content = Text query\<rparr>]]\<rparr>"
  by (simp add: run_query_def Let_def assms)

lemma run_query_one_tool_call:
  fixes e :: "('a, 'c, 'w) env"
  assumes first: "create e [\<lparr>role = ''user'', content = Text query\<rparr>] w = (r1, w1)"
    and calls: "finish_reason r1 = ''tool_calls''" "message_tool_calls r1 = Some [tc]"
    and decoded: "json_loads e (function_arguments tc) = Some tool_args"
    and called: "call_tool e (function_name tc) tool_args w1 = (payload, w2)"
    and second: "create e
        [\<lparr>role = ''user'', content = Text query\<rparr>,
         \<lparr>role = ''assistant'', content = Text (calling_line e (function_name tc) tool_args)\<rparr>,
         \<lparr>role = ''user'', content = Payload payload\<rparr>] w2 = (r2, w3)"
    and stop: "finish_reason r2 = ''stop''"
  shows "run_query e query w = Some (Inr
      \<lparr>messages =
         [\<lparr>role = ''user'', content = Text query\<rparr>,
          \<lparr>role = ''assistant'', content = Text (calling_line e (function_name tc) tool_args)\<rparr>,
          \<lparr>role = ''user'', content = Payload payload\<rparr>],
       final_text =
         [Some (calling_line e (function_name tc) tool_args), Some (response_line e payload),
          message_content r2],
       response = r2, world = w3, stdout = [],
       trace =
         [ModelCall [\<lparr>role = ''user'', content = Text query\<rparr>],
          ToolCall (function_name tc) tool_args payload,
          ModelCall
            [\<lparr>role = ''user'', content = Text query\<rparr>,
             \<lparr>role = ''assistant'', content = Text (calling_line e (function_name tc) tool_args)\<rparr>,
             \<lparr>role = ''user'', content = Payload payload\<rparr>]]\<rparr>)"
proof -
  let ?s0 = "\<lparr>messages = [\<lparr>role = ''user'', content = Text query\<rparr>], final_text = [],
              response = r1, world = w1, stdout = [],
              trace = [ModelCall [\<lparr>role = ''user'', content = Text query\<rparr>]]\<rparr> :: ('a, 'c, 'w) conv"
  let ?history = "[\<lparr>role = ''user'', content = Text query\<rparr>,
         \<lparr>role = ''assistant'', content = Text (calling_line e (function_name tc) tool_args)\<rparr>,
         \<lparr>role = ''user'', content = Payload payload\<rparr>]"
  let ?s1 = "\<lparr>messages = ?history,
       final_text =
         [Some (calling_line e (function_name tc) tool_args), Some (response_line e payload)],
       response = r2, world = w3, stdout = [],
       trace =
         [ModelCall [\<lparr>role = ''user'', content = Text query\<rparr>],
          ToolCall (function_name tc) tool_args payload,
          ModelCall ?history]\<rparr> :: ('a, 'c, 'w) conv"
  have d: "call_one e ?s0 tc = Inr ?s1"
    by (simp add: call_one_def Let_def decoded called second)
  from calls have not_stop: "finish_reason r1 \<noteq> ''stop''"
    by simp
  have "loop e ?s0 = loop e ?s1"
    by (subst loop.simps) (simp add: not_stop calls d)
  also have "\<dots> = Some (Inr (?s1\<lparr>final_text := final_text ?s1 @ [message_content r2]\<rparr>))"
    by (subst loop.simps) (simp add: stop)
  finally show ?thesis
    by (simp add: run_query_loop [OF first])
qed

lemma example_run:
  "run_query example_env ''Which columns are there?'' 0 = Some (Inr
      \<lparr>messages =
         [\<lparr>role = ''user'', content = Text ''Which columns are there?''\<rparr>,
          \<lparr>role = ''assistant'', content = Text ''[Calling tool get_column_names with args {}]''\<rparr>,
          \<lparr>role = ''user'', content = Payload ''age, fare''\<rparr>],
       final_text =
         [Some ''[Calling tool get_column_names with args {}]'',
          Some ''[Tool response: age, fare]'', Some ''Two columns.''],
       response = \<lparr>finish_reason = ''stop'', message_content = Some ''Two columns.'',
                    message_tool_calls = None\<rparr>,
       world = 2, stdout = [],
       trace =
         [ModelCall [\<lparr>role = ''user'', content = Text ''Which columns are there?''\<rparr>],
          ToolCall ''get_column_names'' ''{}'' ''age, fare'',
          ModelCall
            [\<lparr>role = ''user'', content = Text ''Which columns are there?''\<rparr>,
             \<lparr>role = ''assistant'', content = Text ''[Calling tool get_column_names with args {}]''\<rparr>,
             \<lparr>role = ''user'', content = Payload ''age, fare''\<rparr>]]\<rparr>)"
  using run_query_one_tool_call [of example_env "''Which columns are there?''" 0
      "\<lparr>finish_reason = ''tool_calls'', message_content = None,
        message_tool_calls =
          Some [\<lparr>function_name = ''get_column_names'', function_arguments = ''{}''\<rparr>]\<rparr>"
      1 "\<lparr>function_name = ''get_column_names'', function_arguments = ''{}''\<rparr>"
      "''{}''" "''age, fare''" 1
      "\<lparr>finish_reason = ''stop'', message_content = Some ''Two columns.'',
        message_tool_calls = None\<rparr>" 2]
  by (simp add: example_env_def calling_line_def response_line_def)

subsection \<open>A finish reason the loop does not know\<close>

lemma loop_returns_only_on_known_finish:
  "loop e s = Some r \<Longrightarrow> finish_reason (response s) \<in> {''stop'', ''tool_calls''}"
proof (induction rule: loop.raw_induct [rotated 1, consumes 1])
  case (1 loop' e s r)
  show ?case
  proof (rule ccontr)
    assume other: "finish_reason (response s) \<notin> {''stop'', ''tool_calls''}"
    let ?s = "s\<lparr>stdout := stdout s @ [''Finish reason: '' @ finish_reason (response s)]\<rparr>"
    from other "1"(2) have "loop' e ?s = Some r"
      by simp
    then have "finish_reason (response ?s) \<in> {''stop'', ''tool_calls''}"
      by (rule "1"(1))
    with other show False
      by simp
  qed
qed

lemma process_query_unknown_finish:
  fixes e :: "('a, 'c, 'w) env"
  assumes "finish_reason (fst (create e [\<lparr>role = ''user'', content = Text query\<rparr>] w))
             \<notin> {''stop'', ''tool_calls''}"
  shows "process_query e query w = None"
proof -
  obtain r0 w0 where c: "create e [\<lparr>role = ''user'', content = Text query\<rparr>] w = (r0, w0)"
    by (cases "create e [\<lparr>role = ''user'', content = Text query\<rparr>] w")
  let ?s0 = "\<lparr>messages = [\<lparr>role = ''user'', content = Text query\<rparr>], final_text = [],
              response = r0, world = w0, stdout = [],
              trace = [ModelCall [\<lparr>role = ''user'', content = Text query\<rparr>]]\<rparr> :: ('a, 'c, 'w) conv"
  have "loop e ?s0 = None"
  proof (cases "loop e ?s0")
    case (Some r)
    then have "finish_reason (response ?s0) \<in> {''stop'', ''tool_calls''}"
      by (rule loop_returns_only_on_known_finish)
    with assms c show ?thesis
      by simp
  qed
  then have "run_query e query w = None"
    by (simp add: run_query_loop [OF c])
  then show ?thesis
    by (simp add: process_query_def)
qed

text \<open>
  C3. The specification asks that a response which signals neither \<open>stop\<close> nor
  \<open>tool_calls\<close> ends the query with a diagnostic. The code does not do so: the \<open>else\<close>
  branch prints the finish reason and goes round the loop with the same response. With a
  model whose answer is cut at the token limit (finish reason \<open>length\<close>),
  \<open>process_query\<close> never returns.
\<close>

theorem process_query_length_never_returns:
  "process_query truncating_env ''How many rows are there?'' () = None"
  by (rule process_query_unknown_finish) (simp add: truncating_env_def)

subsection \<open>The answer and the calls\<close>

lemma transcript_lines_append:
  "transcript_lines e (xs @ ys) = transcript_lines e xs @ transcript_lines e ys"
  by (induction e xs rule: transcript_lines.induct) auto

lemma call_one_transcript:
  assumes "call_one e s tc = Inr s1"
    and "final_text s = map Some (transcript_lines e (trace s))"
  shows "final_text s1 = map Some (transcript_lines e (trace s1))"
  using assms
  by (auto simp: call_one_def Let_def transcript_lines_append split: option.splits prod.splits)

lemma dispatch_transcript:
  assumes "dispatch e tcs s = Inr s1"
    and "final_text s = map Some (transcript_lines e (trace s))"
  shows "final_text s1 = map Some (transcript_lines e (trace s1))"
  using assms
proof (induction tcs arbitrary: s)
  case Nil
  then show ?case by simp
next
  case (Cons tc tcs)
  then show ?case
    by (auto split: sum.splits dest: call_one_transcript)
qed

lemma loop_transcript:
  assumes "loop e s = Some r" and "r = Inr s1"
    and "final_text s = map Some (transcript_lines e (trace s))"
  shows "finish_reason (response s1) = ''stop'' \<and>
         final_text s1 = map Some (transcript_lines e (trace s1)) @ [message_content (response s1)]"
  using assms
proof (induction rule: loop.raw_induct [rotated 1, consumes 1])
  case (1 loop' e s r)
  note IH = "1"(1) and body = "1"(2) and ret = "1"(3) and inv = "1"(4)
  show ?case
  proof (cases "finish_reason (response s) = ''stop''")
    case True
    with body ret inv show ?thesis by auto
  next
    case False
    note not_stop = this
    show ?thesis
    proof (cases "finish_reason (response s) = ''tool_calls''")
      case True
      with not_stop body ret obtain tcs s2 where
        "dispatch e tcs s = Inr s2" and "loop' e s2 = Some r"
        by (auto split: option.splits sum.splits)
      with IH ret inv dispatch_transcript show ?thesis by blast
    next
      case False
      with not_stop body
      have "loop' e (s\<lparr>stdout := stdout s @ [''Finish reason: '' @ finish_reason (response s)]\<rparr>) = Some r"
        by simp
      from IH [OF this ret] inv show ?thesis by simp
    qed
  qed
qed

lemma those_snoc:
  "those (map Some xs @ [c]) = (case c of None \<Rightarrow> None | Some x \<Rightarrow> Some (xs @ [x]))"
  by (induction xs) (auto split: option.splits)

text \<open>
  C10. Whenever \<open>process_query\<close> returns an answer, the loop has ended on a response with
  finish reason \<open>stop\<close> that has a content, and the answer is the lines, joined by
  newlines, of the transcript of all the tool calls made, in the order they were made (for
  each call its \<open>[Calling tool ... with args ...]\<close> line and its \<open>[Tool response: ...]\<close>
  line), followed by that content.
\<close>

theorem answer_embeds_transcript:
  fixes e :: "('a, 'c, 'w) env"
  assumes "process_query e query w = Some (Inr answer)"
  shows "\<exists>s final. run_query e query w = Some (Inr s)
           \<and> finish_reason (response s) = ''stop''
           \<and> message_content (response s) = Some final
           \<and> answer = join_lines (transcript_lines e (trace s) @ [final])"
proof -
  from assms obtain s where run: "run_query e query w = Some (Inr s)"
    and joined: "join_final_text (final_text s) = Inr answer"
    by (auto simp: process_query_def split: option.splits sum.splits)
  obtain r0 w0 where c: "create e [\<lparr>role = ''user'', content = Text query\<rparr>] w = (r0, w0)"
    by (cases "create e [\<lparr>role = ''user'', content = Text query\<rparr>] w")
  let ?s0 = "\<lparr>messages = [\<lparr>role = ''user'', content = Text query\<rparr>], final_text = [],
              response = r0, world = w0, stdout = [],
              trace = [ModelCall [\<lparr>role = ''user'', content = Text query\<rparr>]]\<rparr> :: ('a, 'c, 'w) conv"
  from run have "loop e ?s0 = Some (Inr s)"
    by (simp add: run_query_loop [OF c])
  moreover have "final_text ?s0 = map Some (transcript_lines e (trace ?s0))"
    by simp
  ultimately have stop: "finish_reason (response s) = ''stop''"
    and ft: "final_text s = map Some (transcript_lines e (trace s)) @ [message_content (response s)]"
    using loop_transcript [of e ?s0 "Inr s" s] by blast+
  from joined ft obtain final where "message_content (response s) = Some final"
    and "answer = join_lines (transcript_lines e (trace s) @ [final])"
    by (auto simp: join_final_text_def those_snoc split: option.splits)
  with run stop show ?thesis
    by blast
qed

theorem answer_embeds_transcript_witness:
  "process_query example_env ''Which columns are there?'' 0 =
     Some (Inr (''[Calling tool get_column_names with args {}]'' @ [CHR 0x0A] @
                ''[Tool response: age, fare]'' @ [CHR 0x0A] @ ''Two columns.''))
   \<and> (\<exists>s final. run_query example_env ''Which columns are there?'' 0 = Some (Inr s)
          \<and> finish_reason (response s) = ''stop''
          \<and> message_content (response s) = Some final
          \<and> ''[Calling tool get_column_names with args {}]'' @ [CHR 0x0A] @
             ''[Tool response: age, fare]'' @ [CHR 0x0A] @ ''Two columns.'' =
             join_lines (transcript_lines example_env (trace s) @ [final]))"
proof -
  have p: "process_query example_env ''Which columns are there?'' 0 =
     Some (Inr (''[Calling tool get_column_names with args {}]'' @ [CHR 0x0A] @
                ''[Tool response: age, fare]'' @ [CHR 0x0A] @ ''Two columns.''))"
    by (simp add: process_query_def example_run join_final_text_def)
  from answer_embeds_transcript [OF p] p show ?thesis
    by blast
qed

subsection \<open>One tool call, then stop\<close>

text \<open>
  C6, as the code has it. When the first response asks for exactly one tool call, whose
  arguments \<open>json.loads\<close> decodes, and the response to the history with the result added
  signals \<open>stop\<close>, the loop ends, having made exactly two model calls and one tool call:
  the first model call on the query alone, then the tool call, then the second model call on
  the final history. The final history is the query, an \<open>assistant\<close> record with the line
  that describes the call, and a record with the payload the tool returned, whose role is
  \<open>user\<close>.
\<close>

theorem one_tool_call_then_stop:
  fixes e :: "('a, 'c, 'w) env"
  assumes "create e [\<lparr>role = ''user'', content = Text query\<rparr>] w = (r1, w1)"
    and "finish_reason r1 = ''tool_calls''" and "message_tool_calls r1 = Some [tc]"
    and "json_loads e (function_arguments tc) = Some tool_args"
    and "call_tool e (function_name tc) tool_args w1 = (payload, w2)"
    and "create e
        [\<lparr>role = ''user'', content = Text query\<rparr>,
         \<lparr>role = ''assistant'', content = Text (calling_line e (function_name tc) tool_args)\<rparr>,
         \<lparr>role = ''user'', content = Payload payload\<rparr>] w2 = (r2, w3)"
    and "finish_reason r2 = ''stop''"
  shows "\<exists>s. run_query e query w = Some (Inr s)
          \<and> length (filter is_model_call (trace s)) = 2
          \<and> length (filter is_tool_call (trace s)) = 1
          \<and> trace s =
              [ModelCall [\<lparr>role = ''user'', content = Text query\<rparr>],
               ToolCall (function_name tc) tool_args payload,
               ModelCall (messages s)]
          \<and> messages s =
              [\<lparr>role = ''user'', content = Text query\<rparr>,
               \<lparr>role = ''assistant'', content = Text (calling_line e (function_name tc) tool_args)\<rparr>,
               \<lparr>role = ''user'', content = Payload payload\<rparr>]"
  using run_query_one_tool_call [OF assms] by simp

theorem one_tool_call_then_stop_witness:
  "create example_env [\<lparr>role = ''user'', content = Text ''Which columns are there?''\<rparr>] 0 =
     (\<lparr>finish_reason = ''tool_calls'', message_content = None,
       message_tool_calls =
         Some [\<lparr>function_name = ''get_column_names'', function_arguments = ''{}''\<rparr>]\<rparr>, 1)
   \<and> json_loads example_env ''{}'' = Some ''{}''
   \<and> call_tool example_env ''get_column_names'' ''{}'' 1 = (''age, fare'', 1)
   \<and> (\<exists>s. run_query example_env ''Which columns are there?'' 0 = Some (Inr s)
          \<and> length (filter is_model_call (trace s)) = 2
          \<and> length (filter is_tool_call (trace s)) = 1
          \<and> trace s =
              [ModelCall [\<lparr>role = ''user'', content = Text ''Which columns are there?''\<rparr>],
               ToolCall ''get_column_names'' ''{}'' ''age, fare'',
               ModelCall (messages s)]
          \<and> messages s =
              [\<lparr>role = ''user'', content = Text ''Which columns are there?''\<rparr>,
               \<lparr>role = ''assistant'',
                content = Text ''[Calling tool get_column_names with args {}]''\<rparr>,
               \<lparr>role = ''user'', content = Payload ''age, fare''\<rparr>])"
proof -
  let ?tc = "\<lparr>function_name = ''get_column_names'', function_arguments = ''{}''\<rparr>"
  let ?r1 = "\<lparr>finish_reason = ''tool_calls'', message_content = None,
              message_tool_calls = Some [?tc]\<rparr>"
  let ?r2 = "\<lparr>finish_reason = ''stop'', message_content = Some ''Two columns.'',
              message_tool_calls = None\<rparr>"
  have h1: "create example_env [\<lparr>role = ''user'', content = Text ''Which columns are there?''\<rparr>] 0 =
      (?r1, 1)"
    by (simp add: example_env_def)
  have h2: "finish_reason ?r1 = ''tool_calls''" and h3: "message_tool_calls ?r1 = Some [?tc]"
    by simp_all
  have h4: "json_loads example_env (function_arguments ?tc) = Some ''{}''"
    by (simp add: example_env_def)
  have h5: "call_tool example_env (function_name ?tc) ''{}'' 1 = (''age, fare'', 1)"
    by (simp add: example_env_def)
  have h6: "create example_env
        [\<lparr>role = ''user'', content = Text ''Which columns are there?''\<rparr>,
         \<lparr>role = ''assistant'',
          content = Text (calling_line example_env (function_name ?tc) ''{}'')\<rparr>,
         \<lparr>role = ''user'', content = Payload ''age, fare''\<rparr>] 1 = (?r2, 2)"
    by (simp add: example_env_def)
  have h7: "finish_reason ?r2 = ''stop''"
    by simp
  have line: "calling_line example_env ''get_column_names'' ''{}'' =
      ''[Calling tool get_column_names with args {}]''"
    by (simp add: calling_line_def example_env_def)
  from one_tool_call_then_stop [OF h1 h2 h3 h4 h5 h6 h7] h1 h4 h5 show ?thesis
    by (simp add: line)
qed

text \<open>
  C6, as the specification states it, fails on the role of the record that holds the tool
  result: in the run of the example the final history has the roles \<open>user\<close>,
  \<open>assistant\<close>, \<open>user\<close>. The payload is recorded under the role \<open>user\<close>; no record has
  a role of its own for tool results.
\<close>

theorem tool_result_recorded_as_user:
  "map_option (map_sum id (\<lambda>s. map role (messages s)))
     (run_query example_env ''Which columns are there?'' 0) =
   Some (Inr [''user'', ''assistant'', ''user''])"
  by (simp add: example_run)

end
